theory Spec2Isabelle
  imports Complex_Main
begin

section \<open>Common data\<close>

text \<open>
  A \<open>double\<close> is idealised as a \<open>real\<close>. The functions below only compare doubles and take
  absolute values, both of which are exact on finite doubles; NaN lies outside this model.
  A \<open>Vector\<close> is the list of its components, a \<open>Key\<close> a natural number, \<open>Values\<close> a map from
  keys to the variables' values, and \<open>VectorValues\<close> a map from keys to vectors.
\<close>

type_synonym Key = nat
type_synonym Vector = "real list"
type_synonym 'x Values = "Key \<rightharpoonup> 'x"
type_synonym VectorValues = "Key \<rightharpoonup> Vector"

text \<open>
  Ways in which a call can end without its result: dereferencing the null pointer that a
  failed \<open>dynamic_pointer_cast\<close> returns, reading a vector component that does not exist,
  dereferencing \<open>begin()\<close> of an empty container, and an exception thrown by a virtual
  method of a factor.
\<close>

datatype failure =
    NullPointerDereference
  | IndexOutOfRange
  | EmptyContainerDereference
  | Thrown string

section \<open>NonlinearInequalityFactorGraph.h\<close>

text \<open>
  The graph stores \<open>NonlinearFactor::shared_ptr\<close>s. The code reaches a factor through
  three interfaces: the virtual \<open>linearize\<close> of \<open>NonlinearFactor\<close>, and the two classes it
  casts to, \<open>NoiseModelFactor\<close> (for \<open>unwhitenedError\<close>) and \<open>NonlinearConstraint\<close> (for
  \<open>dualKey\<close>). A cast that fails yields a null pointer, here \<open>None\<close>. The methods themselves
  belong to the concrete factor classes and are fields of the factor.
\<close>

datatype 'j GaussianFactor = JacobianFactor 'j | HessianFactor

record 'x NoiseModelFactor =
  unwhitenedError :: "'x Values \<Rightarrow> failure + Vector"

record NonlinearConstraint =
  dualKey :: Key

record ('x, 'j) NonlinearFactor =
  linearizeFactor :: "'x Values \<Rightarrow> failure + 'j GaussianFactor"
  asNoiseModelFactor :: "'x NoiseModelFactor option"
  asNonlinearConstraint :: "NonlinearConstraint option"

datatype 'j LinearInequality = LinearInequality 'j Key

type_synonym ('x, 'j) NonlinearInequalityFactorGraph = "('x, 'j) NonlinearFactor list"
type_synonym 'j LinearInequalityFactorGraph = "'j LinearInequality list"

text \<open>
  \<open>linearize\<close>: the loop adds one \<open>LinearInequality\<close> per factor at the end of the linear
  graph. \<open>*jacobian\<close> and \<open>constraint->dualKey()\<close> dereference the results of the two casts.
\<close>

fun linearize ::
  "('x, 'j) NonlinearInequalityFactorGraph \<Rightarrow> 'x Values \<Rightarrow> failure + 'j LinearInequalityFactorGraph"
where
  "linearize [] linearizationPoint = Inr []"
| "linearize (factor # rest) linearizationPoint =
     (case linearizeFactor factor linearizationPoint of
        Inl e \<Rightarrow> Inl e
      | Inr HessianFactor \<Rightarrow> Inl NullPointerDereference
      | Inr (JacobianFactor jacobian) \<Rightarrow>
          (case asNonlinearConstraint factor of
             None \<Rightarrow> Inl NullPointerDereference
           | Some constraint \<Rightarrow>
               (case linearize rest linearizationPoint of
                  Inl e \<Rightarrow> Inl e
                | Inr linearGraph \<Rightarrow>
                    Inr (LinearInequality jacobian (dualKey constraint) # linearGraph))))"

text \<open>
  \<open>checkFeasibilityAndComplimentary\<close>: the loop over the factors, with its two early
  \<open>return false\<close>, its \<open>continue\<close> and the final \<open>return true\<close>. The primal test comes
  before the cast to \<open>NonlinearConstraint\<close>, as in the source.
\<close>

fun checkFeasibilityAndComplimentary ::
  "('x, 'j) NonlinearInequalityFactorGraph \<Rightarrow> 'x Values \<Rightarrow> VectorValues \<Rightarrow> real \<Rightarrow> failure + bool"
where
  "checkFeasibilityAndComplimentary [] values duals tol = Inr True"
| "checkFeasibilityAndComplimentary (factor # rest) values duals tol =
     (case asNoiseModelFactor factor of
        None \<Rightarrow> Inl NullPointerDereference
      | Some noiseModelFactor \<Rightarrow>
          (case unwhitenedError noiseModelFactor values of
             Inl e \<Rightarrow> Inl e
           | Inr [] \<Rightarrow> Inl IndexOutOfRange
           | Inr (error0 # _) \<Rightarrow>
               if error0 > tol then Inr False
               else
                 (case asNonlinearConstraint factor of
                    None \<Rightarrow> Inl NullPointerDereference
                  | Some constraint \<Rightarrow>
                      if duals (dualKey constraint) = None
                      then checkFeasibilityAndComplimentary rest values duals tol
                      else if \<bar>error0\<bar> > tol then Inr False
                      else checkFeasibilityAndComplimentary rest values duals tol)))"

text \<open>
  Two readings of a factor used to state the properties. \<open>errorAt\<close> is the number the check
  reads as the factor's unwhitened error, \<open>error[0]\<close>, when the factor is a
  \<open>NoiseModelFactor\<close> whose error at the values is a vector with at least one component.
  \<open>dualKeyOf\<close> is the factor's dual key when the factor is a \<open>NonlinearConstraint\<close>.
  A graph is an inequality graph at some values when both exist for each of its factors.
\<close>

definition errorAt :: "('x, 'j) NonlinearFactor \<Rightarrow> 'x Values \<Rightarrow> real option" where
  "errorAt factor values =
     (case asNoiseModelFactor factor of
        None \<Rightarrow> None
      | Some noiseModelFactor \<Rightarrow>
          (case unwhitenedError noiseModelFactor values of
             Inl e \<Rightarrow> None
           | Inr [] \<Rightarrow> None
           | Inr (error0 # _) \<Rightarrow> Some error0))"

definition dualKeyOf :: "('x, 'j) NonlinearFactor \<Rightarrow> Key option" where
  "dualKeyOf factor = map_option dualKey (asNonlinearConstraint factor)"

definition inequalityGraphAt :: "('x, 'j) NonlinearInequalityFactorGraph \<Rightarrow> 'x Values \<Rightarrow> bool" where
  "inequalityGraphAt graph values \<longleftrightarrow>
     (\<forall>f \<in> set graph. errorAt f values \<noteq> None \<and> dualKeyOf f \<noteq> None)"

text \<open>
  Example input: the constraint \<open>x\<^sub>j - ub \<le> 0\<close> on the real variable \<open>j\<close>, with dual key \<open>k\<close>.
  Its error has one component, its linearization is stood for by the pair of the key and
  the right-hand side, and evaluating it where \<open>j\<close> has no value throws.
\<close>

definition upperBound :: "Key \<Rightarrow> real \<Rightarrow> Key \<Rightarrow> (real, Key \<times> real) NonlinearFactor" where
  "upperBound j ub k =
     \<lparr> linearizeFactor = (\<lambda>values. case values j of
            None \<Rightarrow> Inl (Thrown ''ValuesKeyDoesNotExist'')
          | Some x \<Rightarrow> Inr (JacobianFactor (j, ub - x))),
       asNoiseModelFactor = Some \<lparr> unwhitenedError = (\<lambda>values. case values j of
            None \<Rightarrow> Inl (Thrown ''ValuesKeyDoesNotExist'')
          | Some x \<Rightarrow> Inr [x - ub]) \<rparr>,
       asNonlinearConstraint = Some \<lparr> dualKey = k \<rparr> \<rparr>"

text \<open>
  Example input: a constraint with dual key \<open>k\<close> whose error has two components, the values
  of the variables \<open>i\<close> and \<open>j\<close>.
\<close>

definition twoComponents :: "Key \<Rightarrow> Key \<Rightarrow> Key \<Rightarrow> (real, unit) NonlinearFactor" where
  "twoComponents i j k =
     \<lparr> linearizeFactor = (\<lambda>values. Inr (JacobianFactor ())),
       asNoiseModelFactor = Some \<lparr> unwhitenedError = (\<lambda>values. case (values i, values j) of
            (Some a, Some b) \<Rightarrow> Inr [a, b]
          | _ \<Rightarrow> Inl (Thrown ''ValuesKeyDoesNotExist'')) \<rparr>,
       asNonlinearConstraint = Some \<lparr> dualKey = k \<rparr> \<rparr>"

section \<open>CalibratedCamera.h\<close>

datatype Point2 = Point2 real real
datatype Point3 = Point3 real real real

text \<open>A rotation is its matrix, row by row; a pose is a rotation and a translation.\<close>

datatype Rot3 = Rot3 real real real  real real real  real real real
datatype Pose3 = Pose3 Rot3 Point3

type_synonym Matrix = "real list list"

datatype CheiralityException = CheiralityException

text \<open>
  \<open>PinholeBase\<close> holds the member \<open>pose_\<close>; the field \<open>pose\<close> stands for the member and for
  the accessor \<open>pose()\<close> that returns it. \<open>CalibratedCamera\<close> adds no member.
\<close>

record PinholeBase =
  pose :: Pose3

type_synonym CalibratedCamera = PinholeBase

text \<open>
  The result of a call with \<open>OptionalJacobian\<close> arguments: the value, and each Jacobian when
  the caller asked for it. The flags of a call say which ones the caller asked for.
\<close>

type_synonym rangeResult = "real \<times> Matrix option \<times> Matrix option"

text \<open>
  \<open>PinholeBase::range\<close> to a point and to a pose, and \<open>CalibratedCamera::range\<close> to another
  camera. \<open>Pose3::range\<close> is declared in Pose3.h, which is not among the sources: its two
  overloads are the parameters \<open>Pose3_range\<close>.
\<close>

definition range_point ::
  "(Pose3 \<Rightarrow> Point3 \<Rightarrow> bool \<Rightarrow> bool \<Rightarrow> rangeResult) \<Rightarrow>
     PinholeBase \<Rightarrow> Point3 \<Rightarrow> bool \<Rightarrow> bool \<Rightarrow> rangeResult" where
  "range_point Pose3_range camera point Dcamera Dpoint =
     Pose3_range (pose camera) point Dcamera Dpoint"

definition range_pose ::
  "(Pose3 \<Rightarrow> Pose3 \<Rightarrow> bool \<Rightarrow> bool \<Rightarrow> rangeResult) \<Rightarrow>
     PinholeBase \<Rightarrow> Pose3 \<Rightarrow> bool \<Rightarrow> bool \<Rightarrow> rangeResult" where
  "range_pose Pose3_range camera other Dcamera Dpose =
     Pose3_range (pose camera) other Dcamera Dpose"

definition range_camera ::
  "(Pose3 \<Rightarrow> Pose3 \<Rightarrow> bool \<Rightarrow> bool \<Rightarrow> rangeResult) \<Rightarrow>
     CalibratedCamera \<Rightarrow> CalibratedCamera \<Rightarrow> bool \<Rightarrow> bool \<Rightarrow> rangeResult" where
  "range_camera Pose3_range this camera H1 H2 =
     Pose3_range (pose this) (pose camera) H1 H2"

text \<open>
  Modelled from the spec: \<open>Pose3::transform_to\<close> (Pose3.h and its implementation are not
  among the sources). The spec calls the pose a rigid transform, rotation and translation,
  and has \<open>project\<close> compute the point in camera coordinates: the world point \<open>p\<close> becomes
  \<open>R\<^sup>T (p - t)\<close>.
\<close>

fun transform_to :: "Pose3 \<Rightarrow> Point3 \<Rightarrow> Point3" where
  "transform_to (Pose3 (Rot3 r11 r12 r13 r21 r22 r23 r31 r32 r33) (Point3 tx ty tz)) (Point3 x y z) =
     Point3 (r11 * (x - tx) + r21 * (y - ty) + r31 * (z - tz))
            (r12 * (x - tx) + r22 * (y - ty) + r32 * (z - tz))
            (r13 * (x - tx) + r23 * (y - ty) + r33 * (z - tz))"

text \<open>
  Modelled from the spec: \<open>Pose3::transform_from\<close> (not among the sources), the rigid
  transform itself: the camera point \<open>q\<close> becomes the world point \<open>R q + t\<close>.
\<close>

fun transform_from :: "Pose3 \<Rightarrow> Point3 \<Rightarrow> Point3" where
  "transform_from (Pose3 (Rot3 r11 r12 r13 r21 r22 r23 r31 r32 r33) (Point3 tx ty tz)) (Point3 x y z) =
     Point3 (r11 * x + r12 * y + r13 * z + tx)
            (r21 * x + r22 * y + r23 * z + ty)
            (r31 * x + r32 * y + r33 * z + tz)"

text \<open>
  The matrix of a pose's rotation is orthogonal, \<open>R R\<^sup>T = I\<close>: the property of a rotation
  that makes \<open>transform_from\<close> undo \<open>transform_to\<close>.
\<close>

fun orthogonal :: "Pose3 \<Rightarrow> bool" where
  "orthogonal (Pose3 (Rot3 r11 r12 r13 r21 r22 r23 r31 r32 r33) t) \<longleftrightarrow>
     r11 * r11 + r12 * r12 + r13 * r13 = 1 \<and>
     r21 * r21 + r22 * r22 + r23 * r23 = 1 \<and>
     r31 * r31 + r32 * r32 + r33 * r33 = 1 \<and>
     r11 * r21 + r12 * r22 + r13 * r23 = 0 \<and>
     r11 * r31 + r12 * r32 + r13 * r33 = 0 \<and>
     r21 * r31 + r22 * r32 + r23 * r33 = 0"

text \<open>
  Modelled from the spec: \<open>PinholeBase::project_to_camera\<close>, which the header declares and
  CalibratedCamera.cpp, not among the sources, implements. By the spec the projection is
  the division by the depth, and it fails with a Cheirality error when the depth is not
  positive.
\<close>

fun project_to_camera :: "Point3 \<Rightarrow> CheiralityException + Point2" where
  "project_to_camera (Point3 x y z) =
     (if z \<le> 0 then Inl CheiralityException else Inr (Point2 (x / z) (y / z)))"

text \<open>
  Modelled from the spec: \<open>PinholeBase::backproject_from_camera\<close>, declared in the header
  and implemented in CalibratedCamera.cpp: the exact algebraic inverse of the projection
  at a known depth.
\<close>

fun backproject_from_camera :: "Point2 \<Rightarrow> real \<Rightarrow> Point3" where
  "backproject_from_camera (Point2 u v) scale = Point3 (u * scale) (v * scale) scale"

text \<open>
  Modelled from the spec: \<open>CalibratedCamera::project\<close>, declared in the header and
  implemented in CalibratedCamera.cpp: it computes the point in camera coordinates, then
  its normalized projection. The Jacobians are left out.
\<close>

definition project :: "CalibratedCamera \<Rightarrow> Point3 \<Rightarrow> CheiralityException + Point2" where
  "project camera point = project_to_camera (transform_to (pose camera) point)"

text \<open>
  Modelled from the spec: \<open>backproject\<close> of a camera, the inverse of \<open>project\<close> given a known
  depth: the image point is taken back to camera coordinates and from there to the world.
\<close>

definition backproject :: "CalibratedCamera \<Rightarrow> Point2 \<Rightarrow> real \<Rightarrow> Point3" where
  "backproject camera p scale = transform_from (pose camera) (backproject_from_camera p scale)"

text \<open>
  Modelled from the spec: the depth of a point in camera coordinates, the third coordinate
  of the point that \<open>transform_to\<close> gives.
\<close>

definition depth :: "CalibratedCamera \<Rightarrow> Point3 \<Rightarrow> real" where
  "depth camera point = (case transform_to (pose camera) point of Point3 x y z \<Rightarrow> z)"

text \<open>Example input: the camera at the origin that looks down the positive X axis.\<close>

definition lookingDownX :: CalibratedCamera where
  "lookingDownX = \<lparr> pose = Pose3 (Rot3 0 0 1  (-1) 0 0  0 (-1) 0) (Point3 0 0 0) \<rparr>"

section \<open>Pose2SLAMOptimizer.cpp\<close>

datatype Pose2 = Pose2 real real real

datatype SharedDiagonal = Unit_Create nat | Sigmas Vector

datatype Pose2Factor =
    Pose2Constraint Key Key Pose2 SharedDiagonal
  | Pose2Prior Key Pose2 SharedDiagonal

type_synonym Pose2Graph = "Pose2Factor list"

text \<open>
  The initial estimate is the list of its entries in the order the container iterates over
  them, so that \<open>theta_->begin()\<close> is the head of the list.
\<close>

type_synonym Pose2Config = "(Key \<times> Pose2) list"
type_synonym VectorConfig = "Key \<rightharpoonup> Vector"

text \<open>
  The optimizer's members \<open>graph_\<close>, \<open>theta_\<close> and \<open>solver_\<close>; the solver belongs to another
  component and its state is a type parameter.
\<close>

record 's Pose2SLAMOptimizer_members =
  opt_graph :: Pose2Graph
  opt_theta :: Pose2Config
  opt_solver :: 's

text \<open>
  Modelled from the spec: \<open>Pose2Graph::addPrior\<close> (pose2SLAM.h is not among the sources),
  which adds one prior factor on the given variable, with the given value and noise
  model, to the graph.
\<close>

definition addPrior :: "Pose2Graph \<Rightarrow> Key \<Rightarrow> Pose2 \<Rightarrow> SharedDiagonal \<Rightarrow> Pose2Graph" where
  "addPrior graph key prior model = graph @ [Pose2Prior key prior model]"

text \<open>
  The constructor. \<open>dataset\<close> and \<open>load2D\<close> (dataset.h) and the solver's \<open>initialize\<close> are
  parameters; \<open>initialize graph theta\<close> is the state in which the call leaves the solver.
  The argument \<open>path\<close> is not used. Dereferencing \<open>theta_->begin()\<close> needs an entry.
\<close>

definition Pose2SLAMOptimizer ::
  "(string \<Rightarrow> string \<times> SharedDiagonal option) \<Rightarrow>
   (string \<Rightarrow> int \<Rightarrow> SharedDiagonal option \<Rightarrow> bool \<Rightarrow> Pose2Graph \<times> Pose2Config) \<Rightarrow>
   (Pose2Graph \<Rightarrow> Pose2Config \<Rightarrow> 's) \<Rightarrow>
   string \<Rightarrow> string \<Rightarrow> failure + 's Pose2SLAMOptimizer_members"
where
  "Pose2SLAMOptimizer dataset load2D initialize dataset_name path =
     (let maxID = 0; addNoise = False;
          (filename, noiseModel) = dataset dataset_name;
          (graph, theta) = load2D filename maxID noiseModel addNoise
      in case theta of
           [] \<Rightarrow> Inl EmptyContainerDereference
         | (key, first) # _ \<Rightarrow>
             (let graph' = addPrior graph key first (Unit_Create 3)
              in Inr \<lparr> opt_graph = graph', opt_theta = theta,
                       opt_solver = initialize graph' theta \<rparr>))"

text \<open>
  \<open>update(const Vector&)\<close> and \<open>updatePreconditioned(const Vector&)\<close>. The overload
  \<open>update(const VectorConfig&)\<close> that \<open>update\<close> calls is declared in Pose2SLAMOptimizer.h,
  not among the sources, and is the parameter \<open>updateConfig\<close>. \<open>X\<close> is default-constructed
  and handed on as it is (the source marks the place with \<open>TODO\<close>); so is \<open>x\<close>.
\<close>

definition update ::
  "(VectorConfig \<Rightarrow> 's Pose2SLAMOptimizer_members \<Rightarrow> 's Pose2SLAMOptimizer_members) \<Rightarrow>
   Vector \<Rightarrow> 's Pose2SLAMOptimizer_members \<Rightarrow> 's Pose2SLAMOptimizer_members" where
  "update updateConfig x opt = (let X = Map.empty in updateConfig X opt)"

definition updatePreconditioned ::
  "(VectorConfig \<Rightarrow> 's Pose2SLAMOptimizer_members \<Rightarrow> 's Pose2SLAMOptimizer_members) \<Rightarrow>
   Vector \<Rightarrow> 's Pose2SLAMOptimizer_members \<Rightarrow> 's Pose2SLAMOptimizer_members" where
  "updatePreconditioned updateConfig y opt = (let x = [] in update updateConfig x opt)"

section \<open>Properties of the inequality factor graph\<close>

text \<open>One pass of the loop, for a factor whose error the check can read.\<close>

lemma check_step:
  assumes "errorAt factor values = Some e"
  shows "checkFeasibilityAndComplimentary (factor # rest) values duals tol =
     (if e > tol then Inr False
      else case dualKeyOf factor of
             None \<Rightarrow> Inl NullPointerDereference
           | Some k \<Rightarrow>
               if duals k \<noteq> None \<and> \<bar>e\<bar> > tol then Inr False
               else checkFeasibilityAndComplimentary rest values duals tol)"
  using assms
  by (auto simp: errorAt_def dualKeyOf_def split: option.splits sum.splits list.splits)

text \<open>On an inequality graph the check returns a boolean, and this one.\<close>

lemma check_char:
  assumes "inequalityGraphAt graph values"
  shows "checkFeasibilityAndComplimentary graph values duals tol =
     Inr (\<forall>f \<in> set graph. \<forall>e k. errorAt f values = Some e \<longrightarrow> dualKeyOf f = Some k \<longrightarrow>
            e \<le> tol \<and> (duals k \<noteq> None \<longrightarrow> \<bar>e\<bar> \<le> tol))"
  using assms
proof (induction graph)
  case Nil
  show ?case by simp
next
  case (Cons f rest)
  from Cons.prems obtain e k where e: "errorAt f values = Some e" and k: "dualKeyOf f = Some k"
    by (auto simp: inequalityGraphAt_def)
  from Cons.prems have "inequalityGraphAt rest values"
    by (simp add: inequalityGraphAt_def)
  from Cons.IH [OF this] show ?case
    by (simp add: check_step [OF e] k e not_less del: checkFeasibilityAndComplimentary.simps)
qed

lemma upperBound_errorAt:
  "values j = Some x \<Longrightarrow> errorAt (upperBound j ub k) values = Some (x - ub)"
  by (simp add: errorAt_def upperBound_def)

lemma upperBound_dualKeyOf: "dualKeyOf (upperBound j ub k) = Some k"
  by (simp add: dualKeyOf_def upperBound_def)

lemma upperBound_linearize:
  "values j = Some x \<Longrightarrow>
     linearizeFactor (upperBound j ub k) values = Inr (JacobianFactor (j, ub - x))"
  by (simp add: upperBound_def)

lemma twoComponents_errorAt:
  "values i = Some a \<Longrightarrow> values j = Some b \<Longrightarrow> errorAt (twoComponents i j k) values = Some a"
  by (simp add: errorAt_def twoComponents_def)

text \<open>
  C1. On an inequality graph, where a constraint's error is the number \<open>error[0]\<close> the check
  reads: if the error of some constraint exceeds the tolerance the check returns false; if
  the dual map has no entries and the error of every constraint is at most the tolerance
  it returns true; and in every case the outcome is a boolean, not a failure.
\<close>

theorem check_feasibility:
  assumes "inequalityGraphAt graph values"
  shows "((\<exists>f \<in> set graph. \<exists>e. errorAt f values = Some e \<and> e > tol) \<longrightarrow>
            checkFeasibilityAndComplimentary graph values duals tol = Inr False)
       \<and> ((\<forall>f \<in> set graph. \<exists>e. errorAt f values = Some e \<and> e \<le> tol) \<longrightarrow>
            checkFeasibilityAndComplimentary graph values Map.empty tol = Inr True)
       \<and> (\<exists>b. checkFeasibilityAndComplimentary graph values duals tol = Inr b)"
proof (intro conjI impI)
  assume "\<exists>f \<in> set graph. \<exists>e. errorAt f values = Some e \<and> e > tol"
  then obtain f e where f: "f \<in> set graph" and e: "errorAt f values = Some e" and gt: "e > tol"
    by blast
  from assms f obtain k where k: "dualKeyOf f = Some k"
    by (auto simp: inequalityGraphAt_def)
  from f e k gt show "checkFeasibilityAndComplimentary graph values duals tol = Inr False"
    unfolding check_char [OF assms] by (auto simp: not_le)
next
  assume "\<forall>f \<in> set graph. \<exists>e. errorAt f values = Some e \<and> e \<le> tol"
  then show "checkFeasibilityAndComplimentary graph values Map.empty tol = Inr True"
    unfolding check_char [OF assms] by fastforce
next
  show "\<exists>b. checkFeasibilityAndComplimentary graph values duals tol = Inr b"
    unfolding check_char [OF assms] by blast
qed

text \<open>
  With \<open>x\<^sub>1 = 3\<close> and \<open>x\<^sub>2 = 4\<close>: the graph of \<open>x\<^sub>1 \<le> 5\<close> and \<open>x\<^sub>2 \<le> 0\<close> is infeasible, the
  graph of \<open>x\<^sub>1 \<le> 5\<close> alone passes with an empty dual map.
\<close>

theorem check_feasibility_witness:
  "checkFeasibilityAndComplimentary [upperBound 1 5 101, upperBound 2 0 102]
     [1 \<mapsto> 3, 2 \<mapsto> 4] [101 \<mapsto> [1]] (1 / 10) = Inr False
   \<and> checkFeasibilityAndComplimentary [upperBound 1 5 101]
     [1 \<mapsto> 3, 2 \<mapsto> 4] Map.empty (1 / 10) = Inr True"
proof -
  let ?v = "[1 \<mapsto> 3, 2 \<mapsto> 4] :: real Values"
  let ?g2 = "[upperBound 1 5 101, upperBound 2 0 102]"
  let ?g1 = "[upperBound 1 5 101]"
  have wf2: "inequalityGraphAt ?g2 ?v"
    by (simp add: inequalityGraphAt_def upperBound_errorAt upperBound_dualKeyOf)
  have wf1: "inequalityGraphAt ?g1 ?v"
    by (simp add: inequalityGraphAt_def upperBound_errorAt upperBound_dualKeyOf)
  have bad: "\<exists>f \<in> set ?g2. \<exists>e. errorAt f ?v = Some e \<and> e > 1 / 10"
    by (simp add: upperBound_errorAt)
  have good: "\<forall>f \<in> set ?g1. \<exists>e. errorAt f ?v = Some e \<and> e \<le> 1 / 10"
    by (simp add: upperBound_errorAt)
  from check_feasibility [OF wf2, of "1 / 10" "[101 \<mapsto> [1]]"] bad
       check_feasibility [OF wf1, of "1 / 10" "[101 \<mapsto> [1]]"] good
  show ?thesis by blast
qed

text \<open>
  C3. On an inequality graph: if some constraint has its dual key in the dual map and the
  magnitude of its error is not at most the tolerance, the check returns false; and if
  every constraint whose dual key is in the dual map has an error of magnitude at most
  the tolerance, the check returns whether every error is at most the tolerance, so that
  a constraint whose dual key is absent is held to no complementarity condition.
\<close>

theorem check_complementarity:
  assumes "inequalityGraphAt graph values"
  shows "((\<exists>f \<in> set graph. \<exists>e k. errorAt f values = Some e \<and> dualKeyOf f = Some k \<and>
              duals k \<noteq> None \<and> \<not> \<bar>e\<bar> \<le> tol) \<longrightarrow>
            checkFeasibilityAndComplimentary graph values duals tol = Inr False)
       \<and> ((\<forall>f \<in> set graph. \<forall>e k. errorAt f values = Some e \<longrightarrow> dualKeyOf f = Some k \<longrightarrow>
              duals k \<noteq> None \<longrightarrow> \<bar>e\<bar> \<le> tol) \<longrightarrow>
            checkFeasibilityAndComplimentary graph values duals tol =
              Inr (\<forall>f \<in> set graph. \<forall>e. errorAt f values = Some e \<longrightarrow> e \<le> tol))"
proof (intro conjI impI)
  assume "\<exists>f \<in> set graph. \<exists>e k. errorAt f values = Some e \<and> dualKeyOf f = Some k \<and>
              duals k \<noteq> None \<and> \<not> \<bar>e\<bar> \<le> tol"
  then show "checkFeasibilityAndComplimentary graph values duals tol = Inr False"
    unfolding check_char [OF assms] by auto
next
  assume active: "\<forall>f \<in> set graph. \<forall>e k. errorAt f values = Some e \<longrightarrow> dualKeyOf f = Some k \<longrightarrow>
              duals k \<noteq> None \<longrightarrow> \<bar>e\<bar> \<le> tol"
  have "(\<forall>f \<in> set graph. \<forall>e k. errorAt f values = Some e \<longrightarrow> dualKeyOf f = Some k \<longrightarrow>
            e \<le> tol \<and> (duals k \<noteq> None \<longrightarrow> \<bar>e\<bar> \<le> tol))
        = (\<forall>f \<in> set graph. \<forall>e. errorAt f values = Some e \<longrightarrow> e \<le> tol)"
  proof (intro iffI ballI allI impI)
    fix f e
    assume h: "\<forall>f \<in> set graph. \<forall>e k. errorAt f values = Some e \<longrightarrow> dualKeyOf f = Some k \<longrightarrow>
            e \<le> tol \<and> (duals k \<noteq> None \<longrightarrow> \<bar>e\<bar> \<le> tol)"
      and f: "f \<in> set graph" and e: "errorAt f values = Some e"
    from assms f obtain k where "dualKeyOf f = Some k"
      by (auto simp: inequalityGraphAt_def)
    with h f e show "e \<le> tol" by blast
  next
    fix f e k
    assume "\<forall>f \<in> set graph. \<forall>e. errorAt f values = Some e \<longrightarrow> e \<le> tol"
      and "f \<in> set graph" and "errorAt f values = Some e" and "dualKeyOf f = Some k"
    with active show "e \<le> tol \<and> (duals k \<noteq> None \<longrightarrow> \<bar>e\<bar> \<le> tol)" by blast
  qed
  then show "checkFeasibilityAndComplimentary graph values duals tol =
              Inr (\<forall>f \<in> set graph. \<forall>e. errorAt f values = Some e \<longrightarrow> e \<le> tol)"
    unfolding check_char [OF assms] by simp
qed

text \<open>
  With \<open>x\<^sub>1 = 3\<close> the constraint \<open>x\<^sub>1 \<le> 5\<close> has error \<open>-2\<close>: feasible, but not binding. The
  check fails when the dual map holds the constraint's dual key 101 and passes when it
  does not.
\<close>

theorem check_complementarity_witness:
  "checkFeasibilityAndComplimentary [upperBound 1 5 101] [1 \<mapsto> 3] [101 \<mapsto> [1]] (1 / 10) = Inr False
   \<and> checkFeasibilityAndComplimentary [upperBound 1 5 101] [1 \<mapsto> 3] [102 \<mapsto> [1]] (1 / 10) = Inr True"
proof -
  let ?v = "[1 \<mapsto> 3] :: real Values"
  let ?g = "[upperBound 1 5 101]"
  have wf: "inequalityGraphAt ?g ?v"
    by (simp add: inequalityGraphAt_def upperBound_errorAt upperBound_dualKeyOf)
  have active: "\<exists>f \<in> set ?g. \<exists>e k. errorAt f ?v = Some e \<and> dualKeyOf f = Some k \<and>
              [101 \<mapsto> [1::real]] k \<noteq> None \<and> \<not> \<bar>e\<bar> \<le> 1 / 10"
    by (simp add: upperBound_errorAt upperBound_dualKeyOf)
  have inactive: "\<forall>f \<in> set ?g. \<forall>e k. errorAt f ?v = Some e \<longrightarrow> dualKeyOf f = Some k \<longrightarrow>
              [102 \<mapsto> [1::real]] k \<noteq> None \<longrightarrow> \<bar>e\<bar> \<le> 1 / 10"
    by (simp add: upperBound_errorAt upperBound_dualKeyOf)
  have primal: "\<forall>f \<in> set ?g. \<forall>e. errorAt f ?v = Some e \<longrightarrow> e \<le> 1 / 10"
    by (simp add: upperBound_errorAt)
  from check_complementarity [OF wf, of "[101 \<mapsto> [1]]" "1 / 10"] active
       check_complementarity [OF wf, of "[102 \<mapsto> [1]]" "1 / 10"] inactive primal
  show ?thesis by simp
qed

text \<open>
  C6. When every factor of the graph linearizes to a Jacobian factor at the linearization
  point and is a nonlinear constraint, \<open>linearize\<close> returns a linear graph with one linear
  inequality per factor, in the same order: the inequality at position \<open>i\<close> consists of
  the Jacobian linearization of the factor at position \<open>i\<close> and of that factor's dual key.
\<close>

theorem linearize_one_per_factor:
  assumes "\<forall>f \<in> set graph. \<exists>j k. linearizeFactor f linearizationPoint = Inr (JacobianFactor j)
              \<and> dualKeyOf f = Some k"
  shows "\<exists>linearGraph. linearize graph linearizationPoint = Inr linearGraph
           \<and> length linearGraph = length graph
           \<and> (\<forall>i < length graph. \<exists>j k.
                  linearizeFactor (graph ! i) linearizationPoint = Inr (JacobianFactor j)
                  \<and> dualKeyOf (graph ! i) = Some k
                  \<and> linearGraph ! i = LinearInequality j k)"
  using assms
proof (induction graph)
  case Nil
  show ?case by simp
next
  case (Cons f rest)
  from Cons.prems obtain j k
    where j: "linearizeFactor f linearizationPoint = Inr (JacobianFactor j)"
      and k: "dualKeyOf f = Some k"
    by auto
  from k obtain c where c: "asNonlinearConstraint f = Some c" and ck: "dualKey c = k"
    by (auto simp: dualKeyOf_def)
  from Cons.prems have "\<forall>f \<in> set rest. \<exists>j k.
      linearizeFactor f linearizationPoint = Inr (JacobianFactor j) \<and> dualKeyOf f = Some k"
    by simp
  from Cons.IH [OF this] obtain lin
    where lin: "linearize rest linearizationPoint = Inr lin"
      and len: "length lin = length rest"
      and nth: "\<forall>i < length rest. \<exists>j k.
                  linearizeFactor (rest ! i) linearizationPoint = Inr (JacobianFactor j)
                  \<and> dualKeyOf (rest ! i) = Some k
                  \<and> lin ! i = LinearInequality j k"
    by blast
  have res: "linearize (f # rest) linearizationPoint = Inr (LinearInequality j k # lin)"
    by (simp add: j c ck lin)
  have "\<forall>i < length (f # rest). \<exists>j' k'.
          linearizeFactor ((f # rest) ! i) linearizationPoint = Inr (JacobianFactor j')
          \<and> dualKeyOf ((f # rest) ! i) = Some k'
          \<and> (LinearInequality j k # lin) ! i = LinearInequality j' k'"
  proof (intro allI impI)
    fix i
    assume "i < length (f # rest)"
    then show "\<exists>j' k'.
          linearizeFactor ((f # rest) ! i) linearizationPoint = Inr (JacobianFactor j')
          \<and> dualKeyOf ((f # rest) ! i) = Some k'
          \<and> (LinearInequality j k # lin) ! i = LinearInequality j' k'"
      using j k nth by (cases i) auto
  qed
  with res len show ?case by simp
qed

text \<open>
  The graph of \<open>x\<^sub>1 \<le> 5\<close> and \<open>x\<^sub>2 \<le> 0\<close> at \<open>x\<^sub>1 = 3\<close>, \<open>x\<^sub>2 = 4\<close> gives the two linear
  inequalities, first the one with dual key 101, then the one with dual key 102.
\<close>

theorem linearize_one_per_factor_witness:
  "linearize [upperBound 1 5 101, upperBound 2 0 102] [1 \<mapsto> 3, 2 \<mapsto> 4]
     = Inr [LinearInequality (1, 2) 101, LinearInequality (2, -4) 102]"
proof -
  let ?g = "[upperBound 1 5 101, upperBound 2 0 102]"
  let ?v = "[1 \<mapsto> 3, 2 \<mapsto> 4] :: real Values"
  have wf: "\<forall>f \<in> set ?g. \<exists>j k. linearizeFactor f ?v = Inr (JacobianFactor j) \<and> dualKeyOf f = Some k"
    by (simp add: upperBound_linearize upperBound_dualKeyOf)
  from linearize_one_per_factor [OF wf] obtain lin
    where lin: "linearize ?g ?v = Inr lin" and len: "length lin = length ?g"
      and nth: "\<forall>i < length ?g. \<exists>j k. linearizeFactor (?g ! i) ?v = Inr (JacobianFactor j)
                  \<and> dualKeyOf (?g ! i) = Some k \<and> lin ! i = LinearInequality j k"
    by blast
  from nth [rule_format, of 0] have n0: "lin ! 0 = LinearInequality (1, 2) 101"
    by (simp add: upperBound_linearize upperBound_dualKeyOf)
  from nth [rule_format, of 1] have n1: "lin ! 1 = LinearInequality (2, -4) 102"
    by (simp add: upperBound_linearize upperBound_dualKeyOf)
  from len obtain a b where ab: "lin = [a, b]"
    by (cases lin; cases "tl lin") auto
  with n0 n1 have "lin = [LinearInequality (1, 2) 101, LinearInequality (2, -4) 102]"
    by simp
  with lin show ?thesis by simp
qed

text \<open>
  C9. The check reads only the first component of each error vector: for two assignments
  of values under which every factor of the graph has the same first error component, the
  check gives the same outcome for the same duals and tolerance, whatever the other
  components are.
\<close>

theorem check_reads_first_component:
  assumes "\<forall>f \<in> set graph. \<exists>e. errorAt f values1 = Some e \<and> errorAt f values2 = Some e"
  shows "checkFeasibilityAndComplimentary graph values1 duals tol =
         checkFeasibilityAndComplimentary graph values2 duals tol"
  using assms
proof (induction graph)
  case Nil
  show ?case by simp
next
  case (Cons f rest)
  from Cons.prems obtain e where e1: "errorAt f values1 = Some e" and e2: "errorAt f values2 = Some e"
    by auto
  from Cons.prems have "\<forall>f \<in> set rest. \<exists>e. errorAt f values1 = Some e \<and> errorAt f values2 = Some e"
    by simp
  from Cons.IH [OF this] show ?case
    by (simp add: check_step [OF e1] check_step [OF e2] split: option.splits
             del: checkFeasibilityAndComplimentary.simps)
qed

text \<open>
  The error \<open>(x\<^sub>1, x\<^sub>2)\<close> at \<open>x\<^sub>1 = 0\<close>: the outcome is the same for \<open>x\<^sub>2 = 0\<close> and for
  \<open>x\<^sub>2 = 7\<close>, far above the tolerance.
\<close>

theorem check_reads_first_component_witness:
  "checkFeasibilityAndComplimentary [twoComponents 1 2 101] [1 \<mapsto> 0, 2 \<mapsto> 0] [101 \<mapsto> [1]] (1 / 10)
   = checkFeasibilityAndComplimentary [twoComponents 1 2 101] [1 \<mapsto> 0, 2 \<mapsto> 7] [101 \<mapsto> [1]] (1 / 10)"
proof -
  have "\<forall>f \<in> set [twoComponents 1 2 101].
          \<exists>e. errorAt f [1 \<mapsto> 0, 2 \<mapsto> 0] = Some e \<and> errorAt f [1 \<mapsto> 0, 2 \<mapsto> 7] = Some e"
    by (simp add: twoComponents_errorAt)
  from check_reads_first_component [OF this] show ?thesis .
qed

text \<open>
  C10. On a graph with no factors the check returns true, for every assignment of values,
  every dual map and every tolerance, negative ones included.
\<close>

theorem check_empty_graph:
  "checkFeasibilityAndComplimentary [] values duals tol = Inr True"
  by simp

section \<open>Properties of the camera\<close>

text \<open>
  C8. The range operations of a camera are those of its pose: to a point, to a pose and
  to another camera, the camera returns what \<open>Pose3::range\<close> returns on the camera's pose
  and the same target, value and requested Jacobians alike.
\<close>

theorem camera_range_is_pose_range:
  "range_point rangeToPoint camera = rangeToPoint (pose camera)
   \<and> range_pose rangeToPose camera = rangeToPose (pose camera)
   \<and> range_camera rangeToPose camera other = rangeToPose (pose camera) (pose other)"
  by (intro conjI ext) (simp_all add: range_point_def range_pose_def range_camera_def)

text \<open>
  C2. For every camera and point: when the depth of the point in camera coordinates is
  not positive, \<open>project\<close> ends with the Cheirality error and so returns no image point;
  when the depth is positive it returns an image point and no error.
\<close>

theorem project_cheirality:
  "(depth camera point \<le> 0 \<longrightarrow> project camera point = Inl CheiralityException)
   \<and> (depth camera point > 0 \<longrightarrow> (\<exists>p. project camera point = Inr p))"
proof -
  obtain x y z where q: "transform_to (pose camera) point = Point3 x y z"
    by (cases "transform_to (pose camera) point")
  show ?thesis
    by (simp add: depth_def project_def q)
qed

text \<open>
  For the camera looking down the X axis: a point behind it and a point beside it, at
  depth 0, give the error; the point \<open>(10, 0, 0)\<close> in front of it is projected.
\<close>

theorem project_cheirality_witness:
  "project lookingDownX (Point3 (-10) 0 0) = Inl CheiralityException
   \<and> project lookingDownX (Point3 0 5 0) = Inl CheiralityException
   \<and> (\<exists>p. project lookingDownX (Point3 10 0 0) = Inr p)"
proof -
  have "depth lookingDownX (Point3 (-10) 0 0) \<le> 0"
    and "depth lookingDownX (Point3 0 5 0) \<le> 0"
    and "depth lookingDownX (Point3 10 0 0) > 0"
    by (simp_all add: depth_def lookingDownX_def)
  with project_cheirality [of lookingDownX "Point3 (-10) 0 0"]
       project_cheirality [of lookingDownX "Point3 0 5 0"]
       project_cheirality [of lookingDownX "Point3 10 0 0"]
  show ?thesis by blast
qed

text \<open>With an orthogonal rotation matrix, \<open>transform_from\<close> undoes \<open>transform_to\<close>.\<close>

lemma row_product:
  fixes a b c a' b' c' x y z :: real
  shows "a' * (a * x + b * y + c * z) + b' * (a1 * x + b1 * y + c1 * z) + c' * (a2 * x + b2 * y + c2 * z)
         = (a' * a + b' * a1 + c' * a2) * x + (a' * b + b' * b1 + c' * b2) * y
           + (a' * c + b' * c1 + c' * c2) * z"
  by (simp add: algebra_simps)

lemma transform_from_to:
  assumes "orthogonal P"
  shows "transform_from P (transform_to P p) = p"
proof -
  obtain R t where P: "P = Pose3 R t" by (cases P)
  obtain a b c d e f g h i where R: "R = Rot3 a b c d e f g h i" by (cases R)
  obtain tx ty tz where t: "t = Point3 tx ty tz" by (cases t)
  obtain x y z where p: "p = Point3 x y z" by (cases p)
  from assms have
    o1: "a * a + b * b + c * c = 1" and o2: "d * d + e * e + f * f = 1"
    and o3: "g * g + h * h + i * i = 1" and o4: "a * d + b * e + c * f = 0"
    and o5: "a * g + b * h + c * i = 0" and o6: "d * g + e * h + f * i = 0"
    by (simp_all add: P R)
  from o4 have o4': "d * a + e * b + f * c = 0" by (simp add: mult.commute)
  from o5 have o5': "g * a + h * b + i * c = 0" by (simp add: mult.commute)
  from o6 have o6': "g * d + h * e + i * f = 0" by (simp add: mult.commute)
  have c1: "a * (a * (x - tx) + d * (y - ty) + g * (z - tz))
          + b * (b * (x - tx) + e * (y - ty) + h * (z - tz))
          + c * (c * (x - tx) + f * (y - ty) + i * (z - tz)) = x - tx"
    unfolding row_product o1 o4 o5 by simp
  have c2: "d * (a * (x - tx) + d * (y - ty) + g * (z - tz))
          + e * (b * (x - tx) + e * (y - ty) + h * (z - tz))
          + f * (c * (x - tx) + f * (y - ty) + i * (z - tz)) = y - ty"
    unfolding row_product o2 o4' o6 by simp
  have c3: "g * (a * (x - tx) + d * (y - ty) + g * (z - tz))
          + h * (b * (x - tx) + e * (y - ty) + h * (z - tz))
          + i * (c * (x - tx) + f * (y - ty) + i * (z - tz)) = z - tz"
    unfolding row_product o3 o5' o6' by simp
  show ?thesis
    unfolding P R t p by (simp only: transform_to.simps transform_from.simps c1 c2 c3) simp
qed

text \<open>
  C5. For every camera whose pose has an orthogonal rotation matrix and every point of
  positive depth in camera coordinates, \<open>project\<close> returns an image point, and
  \<open>backproject\<close> of that image point at the depth of the point is the point itself. Over
  the reals the inverse is exact; both functions are closed formulas.
\<close>

theorem backproject_project:
  assumes "orthogonal (pose camera)" and "depth camera point > 0"
  shows "\<exists>p. project camera point = Inr p \<and> backproject camera p (depth camera point) = point"
proof -
  obtain x y z where q: "transform_to (pose camera) point = Point3 x y z"
    by (cases "transform_to (pose camera) point")
  from assms(2) q have z: "z > 0" by (simp add: depth_def)
  then have proj: "project camera point = Inr (Point2 (x / z) (y / z))"
    by (simp add: project_def q)
  from z have "backproject_from_camera (Point2 (x / z) (y / z)) z = Point3 x y z"
    by simp
  then have "backproject camera (Point2 (x / z) (y / z)) (depth camera point)
             = transform_from (pose camera) (transform_to (pose camera) point)"
    by (simp add: backproject_def depth_def q)
  with transform_from_to [OF assms(1)] proj show ?thesis by simp
qed

text \<open>
  For the camera looking down the X axis the point \<open>(10, 2, -4)\<close> has depth 10, and
  backprojecting its image at depth 10 gives the point back.
\<close>

theorem backproject_project_witness:
  "\<exists>p. project lookingDownX (Point3 10 2 (-4)) = Inr p
       \<and> backproject lookingDownX p 10 = Point3 10 2 (-4)"
proof -
  have r: "orthogonal (pose lookingDownX)"
    by (simp add: lookingDownX_def)
  have d: "depth lookingDownX (Point3 10 2 (-4)) = 10"
    by (simp add: depth_def lookingDownX_def)
  then have "depth lookingDownX (Point3 10 2 (-4)) > 0" by simp
  from backproject_project [OF r this] show ?thesis by (simp only: d)
qed

section \<open>Properties of the optimization driver\<close>

text \<open>
  C7. When the dataset loads with an initial estimate that has a first entry, the
  constructed optimizer's graph is the loaded graph followed by one prior factor on the
  variable of that first entry, at its loaded value and with the unit noise model of
  dimension 3; the initial estimate is the loaded one; and the solver is initialized with
  the graph that already holds the prior.
\<close>

theorem constructor_adds_prior:
  assumes "dataset dataset_name = (filename, noiseModel)"
    and "load2D filename 0 noiseModel False = (loaded, (key, first) # others)"
  shows "Pose2SLAMOptimizer dataset load2D initialize dataset_name path =
           Inr \<lparr> opt_graph = loaded @ [Pose2Prior key first (Unit_Create 3)],
                 opt_theta = (key, first) # others,
                 opt_solver = initialize (loaded @ [Pose2Prior key first (Unit_Create 3)])
                                ((key, first) # others) \<rparr>"
  using assms by (simp add: Pose2SLAMOptimizer_def addPrior_def Let_def)

text \<open>
  A dataset of two poses and one measurement between them; the solver state is the number
  of factors it was initialized with.
\<close>

theorem constructor_adds_prior_witness:
  "Pose2SLAMOptimizer (\<lambda>name. (name @ ''.graph'', None))
        (\<lambda>filename maxID model addNoise.
           ([Pose2Constraint 0 1 (Pose2 1 0 0) (Sigmas [1, 1, 1])],
            [(0, Pose2 0 0 0), (1, Pose2 1 0 0)]))
        (\<lambda>graph theta. length graph) ''w100'' []
     = Inr \<lparr> opt_graph = [Pose2Constraint 0 1 (Pose2 1 0 0) (Sigmas [1, 1, 1]),
                          Pose2Prior 0 (Pose2 0 0 0) (Unit_Create 3)],
             opt_theta = [(0, Pose2 0 0 0), (1, Pose2 1 0 0)],
             opt_solver = 2 \<rparr>"
  using constructor_adds_prior [of "\<lambda>name. (name @ ''.graph'', None)" "''w100''" "''w100.graph''" None
      "\<lambda>filename maxID model addNoise.
           ([Pose2Constraint 0 1 (Pose2 1 0 0) (Sigmas [1, 1, 1])],
            [(0, Pose2 0 0 0), (1, Pose2 1 0 0)])"
      "[Pose2Constraint 0 1 (Pose2 1 0 0) (Sigmas [1, 1, 1])]" 0 "Pose2 0 0 0" "[(1, Pose2 1 0 0)]"
      "\<lambda>graph theta. length graph" "[]"]
  by simp

text \<open>
  C4. What the two update entry points do with the correction: neither reads it. Both end
  in the call of the \<open>VectorConfig\<close> overload on an empty \<open>VectorConfig\<close>, so the correction
  \<open>(1, 0, 0)\<close> has the effect of the correction \<open>(0, 0, 0)\<close>; no tangent map is made from
  the vector, and the preconditioned entry point maps nothing back.
\<close>

theorem update_ignores_correction:
  "update updateConfig x opt = updateConfig Map.empty opt
   \<and> updatePreconditioned updateConfig y opt = updateConfig Map.empty opt
   \<and> update updateConfig [1, 0, 0] opt = update updateConfig [0, 0, 0] opt"
  by (simp add: update_def updatePreconditioned_def)

end
